theory Spec2Isabelle
  imports Main "HOL-Library.Sublist"
begin

section \<open>Python strings\<close>

text \<open>
  A Python \<open>str\<close> is modelled as a \<open>string\<close> whose characters are the code points
  below 256 (Latin-1). On that range \<open>str.lower\<close> moves \<open>A\<close>..\<open>Z\<close> and the accented
  capitals 192..222 (without the multiplication sign 215) up by 32 and leaves every other
  character alone, and \<open>str.isspace\<close> holds of 9..13, 28..32, 133 and 160.
\<close>

definition lower_char :: "char \<Rightarrow> char" where
  "lower_char c =
     (let n = (of_char c :: nat)
      in if (65 \<le> n \<and> n \<le> 90) \<or> (192 \<le> n \<and> n \<le> 222 \<and> n \<noteq> 215)
         then char_of (n + 32) else c)"

definition lower :: "string \<Rightarrow> string" where
  "lower s = map lower_char s"

definition isspace :: "char \<Rightarrow> bool" where
  "isspace c =
     (let n = (of_char c :: nat)
      in (9 \<le> n \<and> n \<le> 13) \<or> (28 \<le> n \<and> n \<le> 32) \<or> n = 133 \<or> n = 160)"

definition lstrip :: "string \<Rightarrow> string" where
  "lstrip s = dropWhile isspace s"

definition rstrip :: "string \<Rightarrow> string" where
  "rstrip s = rev (dropWhile isspace (rev s))"

definition strip :: "string \<Rightarrow> string" where
  "strip s = rstrip (lstrip s)"

section \<open>Exceptions and the question-answering chain\<close>

text \<open>
  The exceptions the two scripts can meet, all of them subclasses of Python's
  \<open>Exception\<close>: one raised by a library call (carrying its description), the
  \<open>KeyError\<close> of a dictionary lookup, the \<open>AttributeError\<close> of reading an attribute
  an object does not have (carrying its message) and the \<open>EOFError\<close> of \<open>input()\<close> at
  the end of standard input. \<open>str_exn\<close> is Python's \<open>str(e)\<close>.
\<close>

datatype exn = Exception string | KeyError string | AttributeError string | EOFError

fun str_exn :: "exn \<Rightarrow> string" where
  "str_exn (Exception m) = m"
| "str_exn (KeyError k) = [CHR 0x27] @ k @ [CHR 0x27]"
| "str_exn (AttributeError m) = m"
| "str_exn EOFError = ''EOF when reading a line''"

text \<open>
  \<open>qa_chain.invoke({"query": q})\<close> either raises or returns a dictionary; the scripts
  read its key \<open>"result"\<close>. The chain itself is a library object: it is a parameter
  of the model.
\<close>

type_synonym response = "string \<rightharpoonup> string"
type_synonym qa_chain = "string \<Rightarrow> exn + response"

definition getitem :: "response \<Rightarrow> string \<Rightarrow> exn + string" where
  "getitem d k = (case d k of None \<Rightarrow> Inl (KeyError k) | Some v \<Rightarrow> Inr v)"

section \<open>The console front-end (main.py)\<close>

text \<open>
  What the script does that can be observed, in the order of the source: one constructor
  for each \<open>print\<close>, \<open>Prompt\<close> for each call of \<open>input("Sua pergunta: ")\<close>,
  \<open>Faiss\<close> for the call that embeds the chunks and builds the index, and \<open>Invoke\<close>
  for each call of \<open>qa_chain.invoke\<close>.
\<close>

datatype event =
    P_erro_api_key          \<comment> \<open>line 15\<close>
  | P_crie_env              \<comment> \<open>line 16\<close>
  | P_iniciando             \<comment> \<open>line 22\<close>
  | P_erro_diretorio        \<comment> \<open>line 26\<close>
  | P_crie_pasta            \<comment> \<open>line 27\<close>
  | P_carregando            \<comment> \<open>line 30\<close>
  | P_nenhum_documento      \<comment> \<open>line 35\<close>
  | P_carregados nat        \<comment> \<open>line 41\<close>
  | P_dividindo             \<comment> \<open>line 44\<close>
  | P_divididos nat         \<comment> \<open>line 47\<close>
  | P_criando_embeddings    \<comment> \<open>line 50\<close>
  | P_base_criada           \<comment> \<open>line 53\<close>
  | P_configurando          \<comment> \<open>line 56\<close>
  | P_pronto                \<comment> \<open>line 66\<close>
  | P_tracos                \<comment> \<open>lines 67 and 85\<close>
  | Prompt                  \<comment> \<open>line 71\<close>
  | P_ate_logo              \<comment> \<open>line 73\<close>
  | P_buscando              \<comment> \<open>line 79\<close>
  | P_resposta              \<comment> \<open>line 82\<close>
  | P_text string           \<comment> \<open>line 83\<close>
  | Faiss nat               \<comment> \<open>line 52, with the number of chunks\<close>
  | Invoke string           \<comment> \<open>line 80\<close>

text \<open>
  How the process ends: \<open>exit()\<close> without an argument, the end of the script, or an
  exception nobody catches. The interpreter's exit status is 0 for the first two and 1
  for a traceback.
\<close>

datatype ending = Sys_exit | End_of_script | Uncaught exn

fun exit_status :: "ending \<Rightarrow> nat" where
  "exit_status Sys_exit = 0"
| "exit_status End_of_script = 0"
| "exit_status (Uncaught e) = 1"

definition emit :: "event list \<Rightarrow> event list \<times> ending \<Rightarrow> event list \<times> ending" where
  "emit xs r = (xs @ fst r, snd r)"

text \<open>
  The interactive loop, lines 70 to 85, over the lines still waiting on standard input.
  With no line left \<open>input\<close> raises \<open>EOFError\<close>.
\<close>

fun console_loop :: "qa_chain \<Rightarrow> string list \<Rightarrow> event list \<times> ending" where
  "console_loop qa [] = ([Prompt], Uncaught EOFError)"
| "console_loop qa (pergunta # rest) =
     emit [Prompt]
       (if lower pergunta = ''sair'' then ([P_ate_logo], End_of_script)
        else if strip pergunta = [] then console_loop qa rest
        else emit [P_buscando, Invoke pergunta]
          (case qa pergunta of
             Inl e \<Rightarrow> ([], Uncaught e)
           | Inr resultado \<Rightarrow>
               emit [P_resposta]
                 (case getitem resultado ''result'' of
                    Inl e \<Rightarrow> ([], Uncaught e)
                  | Inr r \<Rightarrow> emit [P_text r, P_tracos] (console_loop qa rest))))"

section \<open>The world outside the scripts\<close>

text \<open>
  Both scripts read the process environment and the file system and call the document
  loader, the text splitter, the embedding and index library and the chain constructor.
  None of these is code of the repository; the record below holds what each of them
  answers during one run of the process.
  \<^item> \<open>has_api_key\<close>: \<open>"GOOGLE_API_KEY" in os.environ\<close>;
  \<^item> \<open>isdir\<close>: \<open>os.path.isdir("./base_de_conhecimento")\<close>;
  \<^item> \<open>load\<close>: \<open>loader.load()\<close> of main.py, a list of documents or an exception;
  \<^item> \<open>lazy_load\<close>: the generator \<open>directory_loader.lazy_load()\<close> that the \<open>for\<close> of
    assistente_suporte.py runs: it hands out items and may raise while doing so;
  \<^item> \<open>split_documents\<close>: \<open>text_splitter.split_documents\<close> with \<open>chunk_size=1000\<close> and
    \<open>chunk_overlap=200\<close>;
  \<^item> \<open>from_documents\<close>: \<open>FAISS.from_documents(textos_divididos, embeddings)\<close>, an index
    or an exception of the embedding provider;
  \<^item> \<open>from_chain_type\<close>: \<open>RetrievalQA.from_chain_type\<close> over the index.
\<close>

datatype document = Document (page_content: string) (source: string)

text \<open>
  A Python generator, as a \<open>for\<close> statement sees it: each step hands out an item,
  ends the iteration, or raises.
\<close>

datatype 'a generator = Stop | Yield 'a "'a generator" | Raise exn

text \<open>
  An item of the loop of assistente_suporte.py, as the loop uses it:
  \<open>documentos.extend(loader)\<close> iterates it, which appends the documents of \<open>yields\<close>
  one by one and then raises the exception of \<open>fails\<close>, if any (an item that cannot be
  iterated yields nothing and fails); \<open>file_path\<close> is its attribute of that name, if it
  has one.
\<close>

record loader =
  file_path :: "string option"
  yields :: "document list"
  fails :: "exn option"

record 'v world =
  has_api_key :: bool
  isdir :: bool
  load :: "exn + document list"
  lazy_load :: "loader generator"
  split_documents :: "document list \<Rightarrow> document list"
  from_documents :: "document list \<Rightarrow> exn + 'v"
  from_chain_type :: "'v \<Rightarrow> qa_chain"

text \<open>The script main.py, run with the lines \<open>stdin\<close> on its standard input.\<close>

definition main :: "'v world \<Rightarrow> string list \<Rightarrow> event list \<times> ending" where
  "main w stdin =
     (if \<not> has_api_key w then ([P_erro_api_key, P_crie_env], Sys_exit)
      else emit [P_iniciando]
        (if \<not> isdir w then ([P_erro_diretorio, P_crie_pasta], Sys_exit)
         else emit [P_carregando]
           (case load w of
              Inl e \<Rightarrow> ([], Uncaught e)
            | Inr documentos \<Rightarrow>
                if documentos = [] then ([P_nenhum_documento], Sys_exit)
                else
                  let textos_divididos = split_documents w documentos
                  in emit [P_carregados (length documentos), P_dividindo,
                           P_divididos (length textos_divididos), P_criando_embeddings,
                           Faiss (length textos_divididos)]
                       (case from_documents w textos_divididos of
                          Inl e \<Rightarrow> ([], Uncaught e)
                        | Inr vector_store \<Rightarrow>
                            emit [P_base_criada, P_configurando, P_pronto, P_tracos]
                              (console_loop (from_chain_type w vector_store) stdin)))))"

section \<open>The chat front-end (assistente_suporte.py)\<close>

subsection \<open>The glob patterns of the two loaders\<close>

text \<open>
  \<open>DirectoryLoader\<close> hands its \<open>glob\<close> argument to \<open>pathlib\<close>, whose patterns know
  \<open>*\<close> (any run of characters of one path component), \<open>?\<close> (any one character) and
  bracketed classes; every other character, braces and commas too, stands for itself.
  Neither pattern of the repository has a bracket, so classes are left out. After the
  leading \<open>**/\<close>, which reaches every depth, a file is selected when its name matches
  the last component of the pattern.
\<close>

fun fnmatch :: "string \<Rightarrow> string \<Rightarrow> bool" where
  "fnmatch [] [] = True"
| "fnmatch [] (c # cs) = False"
| "fnmatch (p # ps) [] = (if p = CHR ''*'' then fnmatch ps [] else False)"
| "fnmatch (p # ps) (c # cs) =
     (if p = CHR ''*'' then (if fnmatch ps (c # cs) then True else fnmatch (p # ps) cs)
      else if p = CHR ''?'' \<or> p = c then fnmatch ps cs
      else False)"

definition basename :: "string \<Rightarrow> string" where
  "basename p = rev (takeWhile (\<lambda>c. c \<noteq> CHR ''/'') (rev p))"

definition glob_selects :: "string \<Rightarrow> string \<Rightarrow> bool" where
  "glob_selects pat path = fnmatch (basename pat) (basename path)"

definition glob_main :: string where
  "glob_main = ''**/*.*''"

definition glob_app :: string where
  "glob_app = ''**/*.{txt,pdf,docx,md,sql,csv,doc,png,pptx,xlsx}''"

subsection \<open>Setup: \<open>carregar_recursos\<close>\<close>

text \<open>
  The calls of the Streamlit library, in the order the script makes them, with
  \<open>Index_build\<close> for \<open>FAISS.from_documents\<close> and \<open>Qa_invoke\<close> for \<open>qa_chain.invoke\<close>.
\<close>

datatype ui =
    St_error_api_key            \<comment> \<open>line 30\<close>
  | St_error_diretorio          \<comment> \<open>line 36\<close>
  | St_warning_arquivos         \<comment> \<open>line 68\<close>
  | St_write string             \<comment> \<open>line 70\<close>
  | St_error_nenhum_documento   \<comment> \<open>line 73\<close>
  | Index_build nat             \<comment> \<open>line 84, with the number of chunks\<close>
  | St_success nat              \<comment> \<open>line 102\<close>
  | Chat_message string string  \<comment> \<open>lines 112, 118 and 122: role and text\<close>
  | Qa_invoke string            \<comment> \<open>line 125\<close>
  | St_warning_nao_pronto       \<comment> \<open>line 134\<close>

definition arquivo_com_erro :: "string \<Rightarrow> exn \<Rightarrow> string" where
  "arquivo_com_erro path e =
     ''Arquivo: '' @ [CHR 0x27] @ basename path @ [CHR 0x27] @ '' - Erro: '' @ str_exn e"

text \<open>
  Lines 56 to 64: the loop over the generator, carrying \<open>documentos\<close> and
  \<open>arquivos_com_erro\<close>. The \<open>for\<close> header of line 56 runs the generator outside the
  \<open>try\<close>, so an exception of the generator leaves the loop; the \<open>try\<close> of lines 57 to
  59 covers \<open>documentos.extend(loader)\<close> only; and the handler of lines 60 to 64 reads
  \<open>loader.file_path\<close>, which raises \<open>AttributeError\<close> out of the loop when the item
  has no such attribute.
\<close>

fun load_loop ::
  "loader generator \<Rightarrow> document list \<times> string list
     \<Rightarrow> exn + document list \<times> string list" where
  "load_loop Stop acc = Inr acc"
| "load_loop (Raise e) acc = Inl e"
| "load_loop (Yield l g) (documentos, arquivos_com_erro) =
     (case fails l of
        None \<Rightarrow> load_loop g (documentos @ yields l, arquivos_com_erro)
      | Some e \<Rightarrow>
          (case file_path l of
             None \<Rightarrow> Inl (AttributeError ''object has no attribute file_path'')
           | Some path \<Rightarrow>
               load_loop g
                 (documentos @ yields l, arquivos_com_erro @ [arquivo_com_erro path e])))"

text \<open>Lines 67 to 70: the warning and one line for each file that failed.\<close>

definition avisos :: "string list \<Rightarrow> ui list" where
  "avisos arquivos_com_erro =
     (if arquivos_com_erro \<noteq> [] then St_warning_arquivos # map St_write arquivos_com_erro
      else [])"

text \<open>
  The body of \<open>carregar_recursos\<close>. The Python function returns the pair
  \<open>(None, None)\<close> or \<open>(qa_chain, len(documentos))\<close>: here \<open>None\<close> or \<open>Some\<close> of the pair.
\<close>

definition carregar_recursos :: "'v world \<Rightarrow> ui list \<times> (exn + (qa_chain \<times> nat) option)" where
  "carregar_recursos w =
     (if \<not> has_api_key w then ([St_error_api_key], Inr None)
      else if \<not> isdir w then ([St_error_diretorio], Inr None)
      else
        case load_loop (lazy_load w) ([], []) of
          Inl e \<Rightarrow> ([], Inl e)
        | Inr (documentos, arquivos_com_erro) \<Rightarrow>
            if documentos = []
            then (avisos arquivos_com_erro @ [St_error_nenhum_documento], Inr None)
            else
              let textos_divididos = split_documents w documentos
              in case from_documents w textos_divididos of
                   Inl e \<Rightarrow>
                     (avisos arquivos_com_erro @ [Index_build (length textos_divididos)], Inl e)
                 | Inr vector_store \<Rightarrow>
                     (avisos arquivos_com_erro @ [Index_build (length textos_divididos)],
                      Inr (Some (from_chain_type w vector_store, length documentos))))"

fun is_index_build :: "ui \<Rightarrow> bool" where
  "is_index_build (Index_build n) = True"
| "is_index_build _ = False"

text \<open>
  The decorator \<open>@st.cache_resource\<close>: the process keeps the value the function
  returned. \<open>carregar_recursos\<close> has no argument, so there is one cache entry; a call
  that finds it returns it without running the body, and a call whose body raises stores
  nothing.
\<close>

definition cache_resource ::
  "('w \<Rightarrow> ui list \<times> (exn + 'r)) \<Rightarrow> 'r option \<Rightarrow> 'w \<Rightarrow> (ui list \<times> (exn + 'r)) \<times> 'r option" where
  "cache_resource f cache w =
     (case cache of
        Some r \<Rightarrow> (([], Inr r), cache)
      | None \<Rightarrow>
          (case f w of
             (evs, Inl e) \<Rightarrow> ((evs, Inl e), None)
           | (evs, Inr r) \<Rightarrow> ((evs, Inr r), Some r)))"

subsection \<open>The conversation\<close>

record message =
  role :: string
  content :: string

definition saudacao :: message where
  "saudacao =
     \<lparr>role = ''assistant'',
      content = ''Ol'' @ [CHR 0xE1] @ ''! Como posso te ajudar hoje?''\<rparr>"

definition desculpe :: "exn \<Rightarrow> string" where
  "desculpe e = ''Desculpe, ocorreu um erro ao processar sua pergunta: '' @ str_exn e"

text \<open>Lines 124 to 128: the answer, or the apology when anything raises.\<close>

definition responder :: "qa_chain \<Rightarrow> string \<Rightarrow> string" where
  "responder qa prompt =
     (case qa prompt of
        Inl e \<Rightarrow> desculpe e
      | Inr resultado \<Rightarrow>
          (case getitem resultado ''result'' of Inl e \<Rightarrow> desculpe e | Inr r \<Rightarrow> r))"

text \<open>
  Lines 102 to 132, one run of the script once the chain is there. \<open>state\<close> is
  \<open>st.session_state.messages\<close>, \<open>None\<close> while the key is absent; \<open>prompt\<close> is what
  \<open>st.chat_input\<close> returned, and the empty string is as false as \<open>None\<close>.
\<close>

definition conversa ::
  "qa_chain \<Rightarrow> nat \<Rightarrow> message list option \<Rightarrow> string option
     \<Rightarrow> ui list \<times> message list option" where
  "conversa qa num_docs state prompt =
     (let messages = (case state of None \<Rightarrow> [saudacao] | Some ms \<Rightarrow> ms);
          historico = map (\<lambda>m. Chat_message (role m) (content m)) messages
      in case prompt of
           None \<Rightarrow> (St_success num_docs # historico, Some messages)
         | Some p \<Rightarrow>
             if p = [] then (St_success num_docs # historico, Some messages)
             else
               let resposta = responder qa p
               in (St_success num_docs # historico @
                     [Chat_message ''user'' p, Qa_invoke p, Chat_message ''assistant'' resposta],
                   Some (messages @
                     [\<lparr>role = ''user'', content = p\<rparr>,
                      \<lparr>role = ''assistant'', content = resposta\<rparr>])))"

text \<open>
  One run of the whole script, lines 99 to 135: the cache and the session state go in
  and come out. An exception of \<open>carregar_recursos\<close> ends the run.
\<close>

definition app ::
  "'v world \<Rightarrow> (qa_chain \<times> nat) option option \<Rightarrow> message list option \<Rightarrow> string option
     \<Rightarrow> (ui list \<times> exn option) \<times> (qa_chain \<times> nat) option option \<times> message list option" where
  "app w cache state prompt =
     (case cache_resource carregar_recursos cache w of
        ((evs, Inl e), cache') \<Rightarrow> ((evs, Some e), cache', state)
      | ((evs, Inr None), cache') \<Rightarrow> ((evs @ [St_warning_nao_pronto], None), cache', state)
      | ((evs, Inr (Some (qa, num_docs))), cache') \<Rightarrow>
          (case conversa qa num_docs state prompt of
             (evs', state') \<Rightarrow> ((evs @ evs', None), cache', state')))"

text \<open>
  A session: the script runs once for each entry of \<open>prompts\<close> (the user's message of
  that run, if any), with the cache and the session state of the run before.
\<close>

fun session ::
  "'v world \<Rightarrow> (qa_chain \<times> nat) option option \<Rightarrow> message list option \<Rightarrow> string option list
     \<Rightarrow> ui list \<times> (qa_chain \<times> nat) option option \<times> message list option" where
  "session w cache state [] = ([], cache, state)"
| "session w cache state (prompt # prompts) =
     (case app w cache state prompt of
        ((evs, _), cache', state') \<Rightarrow>
          (case session w cache' state' prompts of
             (evs', r) \<Rightarrow> (evs @ evs', r)))"

section \<open>A sample run\<close>

text \<open>
  Concrete inputs for the evaluations below: a chain that always answers, a chain whose
  provider is down, a chain that answers \<open>oi\<close>, raises on \<open>vpn\<close> and otherwise returns
  a dictionary without the key \<open>result\<close>, the items of a directory with one readable
  text file and one corrupted PDF in a subdirectory, and a world in which setup succeeds.
\<close>

definition qa_ok :: qa_chain where
  "qa_ok q = Inr (Map.empty(''result'' \<mapsto> ''ok''))"

definition qa_fora_do_ar :: qa_chain where
  "qa_fora_do_ar q = Inl (Exception ''503 Service Unavailable'')"

definition qa_misto :: qa_chain where
  "qa_misto q =
     (if q = ''oi'' then Inr (Map.empty(''result'' \<mapsto> ''ok''))
      else if q = ''vpn'' then Inl (Exception ''503 Service Unavailable'')
      else Inr Map.empty)"

definition loader_txt :: loader where
  "loader_txt =
     \<lparr>file_path = Some ''base_de_conhecimento/senha.txt'',
      yields = [Document ''Para redefinir a senha, abra o portal.''
                  ''base_de_conhecimento/senha.txt''],
      fails = None\<rparr>"

definition loader_pdf :: loader where
  "loader_pdf =
     \<lparr>file_path = Some ''base_de_conhecimento/redes/vpn.pdf'',
      yields = [],
      fails = Some (Exception ''arquivo corrompido'')\<rparr>"

definition loaders_txt_pdf :: "loader generator" where
  "loaders_txt_pdf = Yield loader_txt (Yield loader_pdf Stop)"

definition mundo :: "nat world" where
  "mundo =
     \<lparr>has_api_key = True,
      isdir = True,
      load = Inr [Document ''Para redefinir a senha, abra o portal.''
                    ''base_de_conhecimento/senha.txt''],
      lazy_load = loaders_txt_pdf,
      split_documents = (\<lambda>documentos. documentos),
      from_documents = (\<lambda>textos. Inr (length textos)),
      from_chain_type = (\<lambda>vector_store. qa_ok)\<rparr>"

section \<open>Facts about \<open>lower\<close> and \<open>strip\<close>\<close>

lemma dropWhile_all_iff: "(\<forall>x\<in>set (dropWhile P xs). P x) \<longleftrightarrow> (\<forall>x\<in>set xs. P x)"
  by (induction xs) auto

lemma strip_empty_iff: "strip s = [] \<longleftrightarrow> (\<forall>c\<in>set s. isspace c)"
  by (simp add: strip_def lstrip_def rstrip_def dropWhile_all_iff)

lemma isspace_lower_char: "isspace c \<Longrightarrow> lower_char c = c"
  by (auto simp: isspace_def lower_char_def Let_def)

lemma not_isspace_s: "\<not> isspace (CHR ''s'')"
  by (simp add: isspace_def)

lemma isspace_not_s: "isspace c \<Longrightarrow> lower_char c \<noteq> CHR ''s''"
  using isspace_lower_char not_isspace_s by force

lemma blank_not_sair: "strip p = [] \<Longrightarrow> lower p \<noteq> ''sair''"
proof
  assume b: "strip p = []" and l: "lower p = ''sair''"
  from l obtain c cs where p: "p = c # cs" by (cases p) (auto simp: lower_def)
  with l have "lower_char c = CHR ''s''" by (simp add: lower_def)
  moreover from b p have "isspace c" by (simp add: strip_empty_iff)
  ultimately show False using isspace_not_s by blast
qed

lemma dropWhile_same_length: "length (dropWhile P xs) = length xs \<Longrightarrow> dropWhile P xs = xs"
proof (cases xs)
  case Nil
  then show ?thesis by simp
next
  case (Cons a list)
  assume eq: "length (dropWhile P xs) = length xs"
  have "length (dropWhile P list) \<le> length list" by (rule length_dropWhile_le)
  with eq Cons show ?thesis by (cases "P a") auto
qed

lemma strip_same_length: "length (strip p) = length p \<Longrightarrow> strip p = p"
proof -
  assume eq: "length (strip p) = length p"
  have a: "length (strip p) \<le> length (dropWhile isspace p)"
    unfolding strip_def lstrip_def rstrip_def by (metis length_dropWhile_le length_rev)
  have b: "length (dropWhile isspace p) \<le> length p" by (rule length_dropWhile_le)
  from eq a b have l: "dropWhile isspace p = p" by (intro dropWhile_same_length) simp
  with eq have "length (dropWhile isspace (rev p)) = length (rev p)"
    by (simp add: strip_def lstrip_def rstrip_def)
  then have "dropWhile isspace (rev p) = rev p" by (rule dropWhile_same_length)
  with l show ?thesis by (simp add: strip_def lstrip_def rstrip_def)
qed

lemma padded_not_sair:
  assumes "lower (strip p) = ''sair''" and "strip p \<noteq> p"
  shows "lower p \<noteq> ''sair''" and "strip p \<noteq> []"
proof -
  from assms(1) have "length (lower (strip p)) = 4" by simp
  then have len: "length (strip p) = 4" by (simp add: lower_def)
  from assms(2) have "length (strip p) \<noteq> length p" using strip_same_length by blast
  with len have "length (lower p) \<noteq> 4" by (simp add: lower_def)
  then show "lower p \<noteq> ''sair''" by auto
  from len show "strip p \<noteq> []" by auto
qed

section \<open>The interactive loop of the console\<close>

lemma console_loop_sair:
  "lower p = ''sair'' \<Longrightarrow> console_loop qa (p # rest) = ([Prompt, P_ate_logo], End_of_script)"
  by (simp add: emit_def)

lemma console_loop_blank:
  assumes "strip p = []"
  shows "console_loop qa (p # rest) = emit [Prompt] (console_loop qa rest)"
proof -
  from assms have "lower p \<noteq> ''sair''" by (rule blank_not_sair)
  with assms show ?thesis by simp
qed

lemma console_loop_answered:
  "lower p \<noteq> ''sair'' \<Longrightarrow> strip p \<noteq> [] \<Longrightarrow> qa p = Inr resultado \<Longrightarrow> resultado ''result'' = Some r
   \<Longrightarrow> console_loop qa (p # rest)
       = emit [Prompt, P_buscando, Invoke p, P_resposta, P_text r, P_tracos] (console_loop qa rest)"
  by (simp add: emit_def getitem_def)

lemma console_loop_raises:
  "lower p \<noteq> ''sair'' \<Longrightarrow> strip p \<noteq> [] \<Longrightarrow> qa p = Inl e
   \<Longrightarrow> console_loop qa (p # rest) = ([Prompt, P_buscando, Invoke p], Uncaught e)"
  by (simp add: emit_def)

lemma console_loop_step:
  assumes "lower p \<noteq> ''sair''"
  shows "(\<exists>evs. Prompt \<notin> set evs \<and> console_loop qa (p # rest) = emit (Prompt # evs) (console_loop qa rest))
       \<or> (\<exists>evs e. console_loop qa (p # rest) = (evs, Uncaught e))"
proof (cases "strip p = []")
  case True
  then have "console_loop qa (p # rest) = emit (Prompt # []) (console_loop qa rest)"
    by (rule console_loop_blank)
  then show ?thesis by (intro disjI1 exI [of _ "[]"]) simp
next
  case False
  show ?thesis
  proof (cases "qa p")
    case (Inl e)
    with assms False
    have "console_loop qa (p # rest) = ([Prompt, P_buscando, Invoke p], Uncaught e)"
      by (simp add: emit_def)
    then show ?thesis by blast
  next
    case (Inr resultado)
    show ?thesis
    proof (cases "resultado ''result''")
      case None
      with assms False Inr
      have "console_loop qa (p # rest)
          = ([Prompt, P_buscando, Invoke p, P_resposta], Uncaught (KeyError ''result''))"
        by (simp add: emit_def getitem_def)
      then show ?thesis by blast
    next
      case (Some r)
      with assms False Inr
      have "console_loop qa (p # rest)
          = emit (Prompt # [P_buscando, Invoke p, P_resposta, P_text r, P_tracos]) (console_loop qa rest)"
        using console_loop_answered [where p = p and qa = qa and resultado = resultado and r = r and rest = rest]
        by simp
      then show ?thesis
        by (intro disjI1 exI [of _ "[P_buscando, Invoke p, P_resposta, P_text r, P_tracos]"]) simp
    qed
  qed
qed

lemma console_loop_clean_end:
  "snd (console_loop qa ps) = End_of_script \<Longrightarrow>
     \<exists>pre q post. ps = pre @ q # post \<and> lower q = ''sair'' \<and> (\<forall>x\<in>set pre. lower x \<noteq> ''sair'')
       \<and> count_list (fst (console_loop qa ps)) Prompt = Suc (length pre)"
proof (induction ps)
  case Nil
  then show ?case by simp
next
  case (Cons p ps)
  show ?case
  proof (cases "lower p = ''sair''")
    case True
    then have "console_loop qa (p # ps) = ([Prompt, P_ate_logo], End_of_script)"
      by (rule console_loop_sair)
    with True show ?thesis by (intro exI [of _ "[]"] exI [of _ p] exI [of _ ps]) simp
  next
    case False
    from console_loop_step [OF False, of qa ps] Cons.prems
    obtain evs where evs: "Prompt \<notin> set evs"
      and step: "console_loop qa (p # ps) = emit (Prompt # evs) (console_loop qa ps)"
      by auto
    from step Cons.prems have "snd (console_loop qa ps) = End_of_script"
      by (simp add: emit_def)
    from Cons.IH [OF this] obtain pre q post where
      ps: "ps = pre @ q # post" and q: "lower q = ''sair''"
      and pre: "\<forall>x\<in>set pre. lower x \<noteq> ''sair''"
      and n: "count_list (fst (console_loop qa ps)) Prompt = Suc (length pre)"
      by blast
    from evs have "count_list evs Prompt = 0" by (simp add: count_list_0_iff)
    with step n have "count_list (fst (console_loop qa (p # ps))) Prompt = Suc (length (p # pre))"
      by (simp add: emit_def)
    with ps q pre False show ?thesis
      by (intro exI [of _ "p # pre"] exI [of _ q] exI [of _ post]) simp
  qed
qed

text \<open>
  C1, at the failing input. The claim says that a failure raised while answering a
  question is caught and turned into an apology, and that the loop goes on. In the
  console loop nothing catches it: with the provider down, the first question ends the
  process with the exception uncaught (exit status 1) and the line that follows on
  standard input is never read.
\<close>

theorem console_answer_failure_uncaught:
  "console_loop qa_fora_do_ar [''como resetar a senha?'', ''sair'']
     = ([Prompt, P_buscando, Invoke ''como resetar a senha?''],
        Uncaught (Exception ''503 Service Unavailable'')) \<and>
   exit_status (snd (console_loop qa_fora_do_ar [''como resetar a senha?'', ''sair''])) = 1"
  by code_simp


text \<open>
  C2 as the claim states it fails: the input \<open>exit\<close> does not end the loop. It is
  handed to the chain as a question, its answer is printed and the script prompts again.
\<close>

theorem exit_is_asked_counterexample:
  "console_loop qa_ok [''exit'', ''sair'']
     = ([Prompt, P_buscando, Invoke ''exit'', P_resposta, P_text ''ok'', P_tracos, Prompt, P_ate_logo],
        End_of_script)"
  by code_simp

text \<open>
  C2, amended: an input whose lowercase form is \<open>sair\<close> ends the loop cleanly, with
  no further prompt and whatever else waits on standard input left unread; and the loop
  ends cleanly only so: when the script reaches its end, some line read was \<open>sair\<close> in
  lowercase, no line before it was, and the script prompted once for each line up to and
  including that one.
\<close>

theorem sair_ends_console_loop:
  "(lower p = ''sair'' \<longrightarrow> console_loop qa (p # rest) = ([Prompt, P_ate_logo], End_of_script)) \<and>
   (snd (console_loop qa ps) = End_of_script \<longrightarrow>
      (\<exists>pre q post. ps = pre @ q # post \<and> lower q = ''sair'' \<and> (\<forall>x\<in>set pre. lower x \<noteq> ''sair'')
         \<and> count_list (fst (console_loop qa ps)) Prompt = Suc (length pre)))"
  using console_loop_sair console_loop_clean_end by blast

theorem sair_ends_console_loop_witness:
  "lower ''SAIR'' = ''sair'' \<and>
   console_loop qa_ok [''SAIR'', ''outra pergunta''] = ([Prompt, P_ate_logo], End_of_script) \<and>
   snd (console_loop qa_ok [''exit'', ''Sair'', ''x'']) = End_of_script \<and>
   (\<exists>pre q post. [''exit'', ''Sair'', ''x''] = pre @ q # post \<and> lower q = ''sair''
      \<and> (\<forall>x\<in>set pre. lower x \<noteq> ''sair'')
      \<and> count_list (fst (console_loop qa_ok [''exit'', ''Sair'', ''x''])) Prompt = Suc (length pre))"
proof -
  have a: "lower ''SAIR'' = ''sair''" by code_simp
  have b: "snd (console_loop qa_ok [''exit'', ''Sair'', ''x'']) = End_of_script" by code_simp
  from a b sair_ends_console_loop [of "''SAIR''" qa_ok "[''outra pergunta'']" "[''exit'', ''Sair'', ''x'']"]
  show ?thesis by blast
qed

text \<open>
  C10: the exit test looks at the raw line in lowercase, before the whitespace test and
  without stripping. A line that is \<open>sair\<close> with whitespace around it (its stripped
  form is \<open>sair\<close> in lowercase, the line itself is not its stripped form) is handed to
  the chain as a question, and when the chain answers the loop goes on with the next
  line. An empty or whitespace-only line is skipped: the next thing the script does is
  prompt again, with nothing printed and the chain not called.
\<close>

theorem exit_check_before_strip:
  "(lower (strip p) = ''sair'' \<and> strip p \<noteq> p \<longrightarrow>
      prefix [Prompt, P_buscando, Invoke p] (fst (console_loop qa (p # rest))) \<and>
      (\<forall>resultado r. qa p = Inr resultado \<and> resultado ''result'' = Some r \<longrightarrow>
         console_loop qa (p # rest)
           = emit [Prompt, P_buscando, Invoke p, P_resposta, P_text r, P_tracos] (console_loop qa rest))) \<and>
   (strip p = [] \<longrightarrow> console_loop qa (p # rest) = emit [Prompt] (console_loop qa rest))"
proof (intro conjI impI allI)
  assume h: "lower (strip p) = ''sair'' \<and> strip p \<noteq> p"
  then have ns: "lower p \<noteq> ''sair''" and nb: "strip p \<noteq> []"
    using padded_not_sair by blast+
  then show "prefix [Prompt, P_buscando, Invoke p] (fst (console_loop qa (p # rest)))"
    by (simp add: emit_def)
  fix resultado r
  assume "qa p = Inr resultado \<and> resultado ''result'' = Some r"
  then have "qa p = Inr resultado" and "resultado ''result'' = Some r" by simp_all
  from console_loop_answered [where p = p and qa = qa and resultado = resultado and r = r and rest = rest, OF ns nb this]
  show "console_loop qa (p # rest)
      = emit [Prompt, P_buscando, Invoke p, P_resposta, P_text r, P_tracos] (console_loop qa rest)" .
next
  show "strip p = [] \<Longrightarrow> console_loop qa (p # rest) = emit [Prompt] (console_loop qa rest)"
    by (rule console_loop_blank)
qed

theorem exit_check_before_strip_witness:
  "lower (strip '' sair '') = ''sair'' \<and> strip '' sair '' \<noteq> '' sair '' \<and>
   qa_ok '' sair '' = Inr (Map.empty(''result'' \<mapsto> ''ok'')) \<and>
   console_loop qa_ok ['' sair '', ''sair'']
     = ([Prompt, P_buscando, Invoke '' sair '', P_resposta, P_text ''ok'', P_tracos, Prompt, P_ate_logo],
        End_of_script) \<and>
   strip [CHR 0x20, CHR 0x09] = [] \<and>
   console_loop qa_ok [[CHR 0x20, CHR 0x09], ''sair''] = ([Prompt, Prompt, P_ate_logo], End_of_script)"
proof -
  have a: "lower (strip '' sair '') = ''sair'' \<and> strip '' sair '' \<noteq> '' sair ''" by code_simp
  have b: "qa_ok '' sair '' = Inr (Map.empty(''result'' \<mapsto> ''ok''))" by (simp add: qa_ok_def)
  have c: "strip [CHR 0x20, CHR 0x09] = []" by code_simp
  have d: "console_loop qa_ok [''sair''] = ([Prompt, P_ate_logo], End_of_script)" by code_simp
  from exit_check_before_strip [of "'' sair ''" qa_ok "[''sair'']"] a b
  have "console_loop qa_ok ['' sair '', ''sair'']
     = emit [Prompt, P_buscando, Invoke '' sair '', P_resposta, P_text ''ok'', P_tracos]
         (console_loop qa_ok [''sair''])"
    by simp
  moreover from exit_check_before_strip [of "[CHR 0x20, CHR 0x09]" qa_ok "[''sair'']"] c
  have "console_loop qa_ok [[CHR 0x20, CHR 0x09], ''sair''] = emit [Prompt] (console_loop qa_ok [''sair''])"
    by blast
  ultimately show ?thesis using a b c d by (simp add: emit_def)
qed

section \<open>The console script\<close>

lemma main_setup_failure:
  "\<not> has_api_key w \<or> \<not> isdir w \<or> load w = Inr [] \<Longrightarrow> snd (main w inp) = Sys_exit"
  by (auto simp: main_def emit_def)

lemma main_sair:
  assumes "has_api_key w" and "isdir w" and "load w = Inr docs" and "docs \<noteq> []"
    and "from_documents w (split_documents w docs) = Inr v" and "lower p = ''sair''"
  shows "snd (main w (p # rest)) = End_of_script"
proof -
  from assms(6) have "console_loop (from_chain_type w v) (p # rest) = ([Prompt, P_ate_logo], End_of_script)"
    by (rule console_loop_sair)
  with assms(1-5) show ?thesis by (simp add: main_def emit_def Let_def)
qed

lemma exit_status_nonzero: "exit_status t \<noteq> 0 \<Longrightarrow> \<exists>e. t = Uncaught e"
  by (cases t) auto

lemma main_sem_diretorio:
  "has_api_key w \<Longrightarrow> \<not> isdir w \<Longrightarrow>
   main w inp = ([P_iniciando, P_erro_diretorio, P_crie_pasta], Sys_exit)"
  by (simp add: main_def emit_def)

lemma main_sem_documentos:
  "has_api_key w \<Longrightarrow> isdir w \<Longrightarrow> load w = Inr [] \<Longrightarrow>
   main w inp = ([P_iniciando, P_carregando, P_nenhum_documento], Sys_exit)"
  by (simp add: main_def emit_def)

text \<open>
  C5 as the claim states it fails: with the credential missing, and with the directory
  missing, the script prints its message and calls \<open>exit()\<close> without a status, so
  the exit status of the process is 0, not a non-zero value.
\<close>

theorem setup_failure_exits_zero_counterexample:
  "main (mundo\<lparr>has_api_key := False\<rparr>) [] = ([P_erro_api_key, P_crie_env], Sys_exit) \<and>
   exit_status (snd (main (mundo\<lparr>has_api_key := False\<rparr>) [])) = 0 \<and>
   main (mundo\<lparr>isdir := False\<rparr>) [] = ([P_iniciando, P_erro_diretorio, P_crie_pasta], Sys_exit) \<and>
   exit_status (snd (main (mundo\<lparr>isdir := False\<rparr>) [])) = 0"
  by (simp add: main_def mundo_def emit_def)

text \<open>
  C5, amended: the exit status of the console process is 0 on normal termination (the
  user typed \<open>sair\<close>) and is also 0 on each setup failure the script handles (missing
  credential, missing directory, no document loaded), which all end in \<open>exit()\<close>
  without a status; the status is non-zero only when an exception goes uncaught.
\<close>

theorem console_exit_status:
  "(\<not> has_api_key w \<or> \<not> isdir w \<or> load w = Inr [] \<longrightarrow>
      snd (main w inp) = Sys_exit \<and> exit_status (snd (main w inp)) = 0) \<and>
   (has_api_key w \<and> isdir w \<and> load w = Inr docs \<and> docs \<noteq> [] \<and>
    from_documents w (split_documents w docs) = Inr v \<and> lower p = ''sair'' \<longrightarrow>
      snd (main w (p # rest)) = End_of_script \<and> exit_status (snd (main w (p # rest))) = 0) \<and>
   (exit_status (snd (main w inp)) \<noteq> 0 \<longrightarrow> (\<exists>e. snd (main w inp) = Uncaught e))"
proof (intro conjI impI)
  assume "\<not> has_api_key w \<or> \<not> isdir w \<or> load w = Inr []"
  then show a: "snd (main w inp) = Sys_exit" by (rule main_setup_failure)
  then show "exit_status (snd (main w inp)) = 0" by simp
next
  assume "has_api_key w \<and> isdir w \<and> load w = Inr docs \<and> docs \<noteq> [] \<and>
    from_documents w (split_documents w docs) = Inr v \<and> lower p = ''sair''"
  then show b: "snd (main w (p # rest)) = End_of_script" by (elim conjE) (rule main_sair)
  then show "exit_status (snd (main w (p # rest))) = 0" by simp
next
  assume "exit_status (snd (main w inp)) \<noteq> 0"
  then show "\<exists>e. snd (main w inp) = Uncaught e" by (rule exit_status_nonzero)
qed

theorem console_exit_status_witness:
  "\<not> isdir (mundo\<lparr>isdir := False\<rparr>) \<and>
   snd (main (mundo\<lparr>isdir := False\<rparr>) [''oi'']) = Sys_exit \<and>
   exit_status (snd (main (mundo\<lparr>isdir := False\<rparr>) [''oi''])) = 0 \<and>
   lower ''Sair'' = ''sair'' \<and>
   snd (main mundo [''Sair'', ''oi'']) = End_of_script \<and>
   exit_status (snd (main mundo [''Sair'', ''oi''])) = 0 \<and>
   exit_status (snd (main (mundo\<lparr>load := Inl (Exception ''pdf ilegivel'')\<rparr>) [])) \<noteq> 0 \<and>
   snd (main (mundo\<lparr>load := Inl (Exception ''pdf ilegivel'')\<rparr>) []) = Uncaught (Exception ''pdf ilegivel'')"
proof -
  have a: "\<not> isdir (mundo\<lparr>isdir := False\<rparr>)" by simp
  have b: "lower ''Sair'' = ''sair''" by code_simp
  have c: "has_api_key mundo \<and> isdir mundo \<and> load mundo = Inr [Document ''Para redefinir a senha, abra o portal.'' ''base_de_conhecimento/senha.txt'']
     \<and> from_documents mundo (split_documents mundo [Document ''Para redefinir a senha, abra o portal.'' ''base_de_conhecimento/senha.txt'']) = Inr 1"
    by (simp add: mundo_def)
  have d: "exit_status (snd (main (mundo\<lparr>load := Inl (Exception ''pdf ilegivel'')\<rparr>) [])) \<noteq> 0"
    by (simp add: main_def mundo_def emit_def)
  have e: "snd (main (mundo\<lparr>load := Inl (Exception ''pdf ilegivel'')\<rparr>) []) = Uncaught (Exception ''pdf ilegivel'')"
    by (simp add: main_def mundo_def emit_def)
  from a console_exit_status [of "mundo\<lparr>isdir := False\<rparr>" "[''oi'']"]
  have "snd (main (mundo\<lparr>isdir := False\<rparr>) [''oi'']) = Sys_exit \<and>
        exit_status (snd (main (mundo\<lparr>isdir := False\<rparr>) [''oi''])) = 0" by blast
  moreover from b c console_exit_status [of mundo "[]" "[Document ''Para redefinir a senha, abra o portal.'' ''base_de_conhecimento/senha.txt'']" 1 "''Sair''" "[''oi'']"]
  have "snd (main mundo [''Sair'', ''oi'']) = End_of_script \<and>
        exit_status (snd (main mundo [''Sair'', ''oi''])) = 0" by blast
  ultimately show ?thesis using a b d e by blast
qed

section \<open>One bad file during loading\<close>

text \<open>
  C3, at the failing input: a knowledge base with one readable text file and one
  corrupted PDF. The claim says the failure of the one file is caught and recorded and
  that loading goes on with the other files. In main.py nothing stands around
  \<open>loader.load()\<close>: when it raises for the bad file the script ends with the exception
  uncaught, before any document is counted and before the first prompt. In
  assistente_suporte.py the \<open>try\<close> covers \<open>documentos.extend(loader)\<close> only: an
  exception raised while the \<open>for\<close> header runs the generator leaves
  \<open>carregar_recursos\<close> with nothing recorded, although the text file had been loaded.
\<close>

theorem single_bad_file_aborts_setup:
  "main (mundo\<lparr>load := Inl (Exception ''arquivo corrompido'')\<rparr>) [''oi'', ''sair'']
     = ([P_iniciando, P_carregando], Uncaught (Exception ''arquivo corrompido'')) \<and>
   carregar_recursos
       (mundo\<lparr>lazy_load := Yield loader_txt (Raise (Exception ''arquivo corrompido''))\<rparr>)
     = ([], Inl (Exception ''arquivo corrompido''))"
  by (simp add: main_def carregar_recursos_def mundo_def loader_txt_def emit_def)

section \<open>Which files the glob patterns select\<close>

text \<open>
  C6, at the failing input. The claim says the loader picks exactly the files whose
  extension is one of \<open>txt, pdf, docx, md, sql, csv, doc, png, pptx, xlsx\<close>. The
  pattern of assistente_suporte.py writes that set in braces, which the pattern language
  does not expand: it selects none of \<open>manual.txt\<close>, ..., \<open>manual.xlsx\<close> and only
  a file whose name ends in the braces themselves. The pattern of main.py is \<open>*.*\<close>
  and selects \<open>ferramenta.exe\<close> as well as \<open>manual.txt\<close>.
\<close>

theorem glob_patterns_miss_accepted_set:
  "list_all (\<lambda>ext. \<not> glob_selects glob_app (''base_de_conhecimento/manual.'' @ ext))
     [''txt'', ''pdf'', ''docx'', ''md'', ''sql'', ''csv'', ''doc'', ''png'', ''pptx'', ''xlsx''] \<and>
   glob_selects glob_app ''base_de_conhecimento/manual.{txt,pdf,docx,md,sql,csv,doc,png,pptx,xlsx}'' \<and>
   glob_selects glob_main ''base_de_conhecimento/ferramenta.exe'' \<and>
   glob_selects glob_main ''base_de_conhecimento/manual.txt''"
  by code_simp

section \<open>Setup and its cache\<close>

lemma avisos_no_build: "filter is_index_build (avisos erros) = []"
  by (induction erros) (auto simp: avisos_def)

lemma carregar_sem_diretorio:
  "has_api_key w \<Longrightarrow> \<not> isdir w \<Longrightarrow> carregar_recursos w = ([St_error_diretorio], Inr None)"
  by (simp add: carregar_recursos_def)

lemma carregar_sem_documentos:
  "has_api_key w \<Longrightarrow> isdir w \<Longrightarrow> load_loop (lazy_load w) ([], []) = Inr ([], erros) \<Longrightarrow>
   carregar_recursos w = (avisos erros @ [St_error_nenhum_documento], Inr None)"
  by (simp add: carregar_recursos_def)

lemma carregar_success_builds_once:
  assumes "carregar_recursos w = (evs, Inr (Some (qa, n)))"
  shows "length (filter is_index_build evs) = 1"
proof (cases "load_loop (lazy_load w) ([], [])")
  case (Inl e)
  with assms show ?thesis by (simp add: carregar_recursos_def split: if_splits)
next
  case (Inr r)
  obtain documentos erros where r: "r = (documentos, erros)" by (cases r) auto
  from assms Inr r
  have "evs = avisos erros @ [Index_build (length (split_documents w documentos))]"
    by (auto simp: carregar_recursos_def Let_def split: if_splits sum.splits)
  then show ?thesis by (simp add: avisos_no_build)
qed

text \<open>
  C8: when the first call of the cached \<open>carregar_recursos\<close> in a process builds the
  pipeline, the embedding and index step has run exactly once, the handle is stored, and
  a second call with the same inputs returns that same handle without running the body:
  over both calls the step has run exactly once.
\<close>

theorem setup_cached_after_first_build:
  assumes "cache_resource carregar_recursos None w = ((evs, Inr (Some (qa, n))), cache)"
  shows "cache = Some (Some (qa, n)) \<and>
         cache_resource carregar_recursos cache w = (([], Inr (Some (qa, n))), cache) \<and>
         length (filter is_index_build
           (evs @ fst (fst (cache_resource carregar_recursos cache w)))) = 1"
proof -
  from assms have c: "carregar_recursos w = (evs, Inr (Some (qa, n)))"
    and cache: "cache = Some (Some (qa, n))"
    by (auto simp: cache_resource_def split: prod.splits sum.splits)
  from cache have second: "cache_resource carregar_recursos cache w = (([], Inr (Some (qa, n))), cache)"
    by (simp add: cache_resource_def)
  from carregar_success_builds_once [OF c] second cache show ?thesis by simp
qed

theorem setup_cached_after_first_build_witness:
  "cache_resource carregar_recursos None mundo
     = (([St_warning_arquivos,
          St_write (''Arquivo: '' @ [CHR 0x27] @ ''vpn.pdf'' @ [CHR 0x27] @ '' - Erro: arquivo corrompido''),
          Index_build 1], Inr (Some (qa_ok, 1))), Some (Some (qa_ok, 1))) \<and>
   cache_resource carregar_recursos (Some (Some (qa_ok, 1))) mundo
     = (([], Inr (Some (qa_ok, 1))), Some (Some (qa_ok, 1)))"
proof -
  have l: "load_loop loaders_txt_pdf ([], [])
     = Inr ([Document ''Para redefinir a senha, abra o portal.'' ''base_de_conhecimento/senha.txt''],
            [''Arquivo: '' @ [CHR 0x27] @ ''vpn.pdf'' @ [CHR 0x27] @ '' - Erro: arquivo corrompido''])"
    by code_simp
  have a: "cache_resource carregar_recursos None mundo
     = (([St_warning_arquivos,
          St_write (''Arquivo: '' @ [CHR 0x27] @ ''vpn.pdf'' @ [CHR 0x27] @ '' - Erro: arquivo corrompido''),
          Index_build 1], Inr (Some (qa_ok, 1))), Some (Some (qa_ok, 1)))"
    by (simp add: cache_resource_def carregar_recursos_def mundo_def avisos_def l)
  from setup_cached_after_first_build [OF a] a show ?thesis by simp
qed

section \<open>Setup that finds no document\<close>

lemma app_cached:
  "app w (Some None) state prompt = (([St_warning_nao_pronto], None), Some None, state)"
  by (simp add: app_def cache_resource_def)

lemma app_not_ready:
  "carregar_recursos w = (evs, Inr None) \<Longrightarrow>
   app w None state prompt = ((evs @ [St_warning_nao_pronto], None), Some None, state)"
  by (simp add: app_def cache_resource_def)

lemma session_not_ready_cached:
  "session w (Some None) state prompts = (replicate (length prompts) St_warning_nao_pronto, Some None, state)"
  by (induction prompts) (simp_all add: app_cached)

lemma session_not_ready:
  assumes "carregar_recursos w = (evs, Inr None)"
  shows "session w None state prompts
     = (if prompts = [] then ([], None, state)
        else (evs @ replicate (length prompts) St_warning_nao_pronto, Some None, state))"
proof (cases prompts)
  case Nil
  then show ?thesis by simp
next
  case (Cons p ps)
  with assms show ?thesis
    by (simp add: app_not_ready session_not_ready_cached replicate_app_Cons_same)
qed

text \<open>
  C4: when setup produces no document, because the directory is missing or because
  nothing was loaded from it, setup fails with a message of its own and no question is
  ever taken. The console prints the directory message or the no-document message and
  exits before its first prompt. The chat front-end shows the directory error or the
  no-document error (after the per-file warnings) on the first run, and on every run
  only the not-ready warning: no chat message is shown, the chain is never invoked and
  the session state stays as it was.
\<close>

theorem no_documents_stops_setup:
  "(has_api_key w \<and> \<not> isdir w \<longrightarrow>
      main w inp = ([P_iniciando, P_erro_diretorio, P_crie_pasta], Sys_exit) \<and>
      session w None state (prompt # prompts)
        = (St_error_diretorio # replicate (Suc (length prompts)) St_warning_nao_pronto,
           Some None, state)) \<and>
   (has_api_key w \<and> isdir w \<and> load w = Inr [] \<longrightarrow>
      main w inp = ([P_iniciando, P_carregando, P_nenhum_documento], Sys_exit)) \<and>
   (has_api_key w \<and> isdir w \<and> load_loop (lazy_load w) ([], []) = Inr ([], erros) \<longrightarrow>
      session w None state (prompt # prompts)
        = (avisos erros @
             St_error_nenhum_documento # replicate (Suc (length prompts)) St_warning_nao_pronto,
           Some None, state))"
proof (intro conjI impI)
  assume h: "has_api_key w \<and> \<not> isdir w"
  then show "main w inp = ([P_iniciando, P_erro_diretorio, P_crie_pasta], Sys_exit)"
    by (simp add: main_sem_diretorio)
  from h have "carregar_recursos w = ([St_error_diretorio], Inr None)"
    by (simp add: carregar_sem_diretorio)
  from session_not_ready [OF this, of state "prompt # prompts"]
  show "session w None state (prompt # prompts)
        = (St_error_diretorio # replicate (Suc (length prompts)) St_warning_nao_pronto,
           Some None, state)"
    by simp
next
  assume "has_api_key w \<and> isdir w \<and> load w = Inr []"
  then show "main w inp = ([P_iniciando, P_carregando, P_nenhum_documento], Sys_exit)"
    by (simp add: main_sem_documentos)
next
  assume "has_api_key w \<and> isdir w \<and> load_loop (lazy_load w) ([], []) = Inr ([], erros)"
  then have "carregar_recursos w = (avisos erros @ [St_error_nenhum_documento], Inr None)"
    by (simp add: carregar_sem_documentos)
  from session_not_ready [OF this, of state "prompt # prompts"]
  show "session w None state (prompt # prompts)
        = (avisos erros @
             St_error_nenhum_documento # replicate (Suc (length prompts)) St_warning_nao_pronto,
           Some None, state)"
    by simp
qed

theorem no_documents_stops_setup_witness:
  "has_api_key (mundo\<lparr>isdir := False\<rparr>) \<and> \<not> isdir (mundo\<lparr>isdir := False\<rparr>) \<and>
   main (mundo\<lparr>isdir := False\<rparr>) [''oi'']
     = ([P_iniciando, P_erro_diretorio, P_crie_pasta], Sys_exit) \<and>
   session (mundo\<lparr>isdir := False\<rparr>) None None [Some ''oi'', None]
     = ([St_error_diretorio, St_warning_nao_pronto, St_warning_nao_pronto], Some None, None) \<and>
   load (mundo\<lparr>load := Inr []\<rparr>) = Inr [] \<and>
   main (mundo\<lparr>load := Inr []\<rparr>) [''oi'']
     = ([P_iniciando, P_carregando, P_nenhum_documento], Sys_exit) \<and>
   load_loop (lazy_load (mundo\<lparr>lazy_load := Yield loader_pdf Stop\<rparr>)) ([], [])
     = Inr ([], [''Arquivo: '' @ [CHR 0x27] @ ''vpn.pdf'' @ [CHR 0x27] @
                 '' - Erro: arquivo corrompido'']) \<and>
   session (mundo\<lparr>lazy_load := Yield loader_pdf Stop\<rparr>) None None [Some ''oi'']
     = ([St_warning_arquivos,
         St_write (''Arquivo: '' @ [CHR 0x27] @ ''vpn.pdf'' @ [CHR 0x27] @
                   '' - Erro: arquivo corrompido''),
         St_error_nenhum_documento, St_warning_nao_pronto], Some None, None)"
proof -
  have a: "has_api_key (mundo\<lparr>isdir := False\<rparr>) \<and> \<not> isdir (mundo\<lparr>isdir := False\<rparr>)"
    by (simp add: mundo_def)
  have b: "has_api_key (mundo\<lparr>load := Inr []\<rparr>) \<and> isdir (mundo\<lparr>load := Inr []\<rparr>) \<and>
           load (mundo\<lparr>load := Inr []\<rparr>) = Inr []"
    by (simp add: mundo_def)
  have l: "load_loop (Yield loader_pdf Stop) ([], [])
     = Inr ([], [''Arquivo: '' @ [CHR 0x27] @ ''vpn.pdf'' @ [CHR 0x27] @
                 '' - Erro: arquivo corrompido''])"
    by code_simp
  have c: "has_api_key (mundo\<lparr>lazy_load := Yield loader_pdf Stop\<rparr>) \<and>
           isdir (mundo\<lparr>lazy_load := Yield loader_pdf Stop\<rparr>) \<and>
           load_loop (lazy_load (mundo\<lparr>lazy_load := Yield loader_pdf Stop\<rparr>)) ([], [])
             = Inr ([], [''Arquivo: '' @ [CHR 0x27] @ ''vpn.pdf'' @ [CHR 0x27] @
                         '' - Erro: arquivo corrompido''])"
    using l by (simp add: mundo_def del: load_loop.simps)
  from a no_documents_stops_setup [of "mundo\<lparr>isdir := False\<rparr>" "[''oi'']" None "Some ''oi''" "[None]"]
  have a': "main (mundo\<lparr>isdir := False\<rparr>) [''oi'']
       = ([P_iniciando, P_erro_diretorio, P_crie_pasta], Sys_exit) \<and>
     session (mundo\<lparr>isdir := False\<rparr>) None None [Some ''oi'', None]
       = ([St_error_diretorio, St_warning_nao_pronto, St_warning_nao_pronto], Some None, None)"
    by simp
  from b no_documents_stops_setup [of "mundo\<lparr>load := Inr []\<rparr>" "[''oi'']"]
  have b': "main (mundo\<lparr>load := Inr []\<rparr>) [''oi'']
       = ([P_iniciando, P_carregando, P_nenhum_documento], Sys_exit)"
    by blast
  from c no_documents_stops_setup
    [of "mundo\<lparr>lazy_load := Yield loader_pdf Stop\<rparr>" _ None "Some ''oi''" "[]"
        "[''Arquivo: '' @ [CHR 0x27] @ ''vpn.pdf'' @ [CHR 0x27] @ '' - Erro: arquivo corrompido'']"]
  have "session (mundo\<lparr>lazy_load := Yield loader_pdf Stop\<rparr>) None None [Some ''oi'']
     = (avisos [''Arquivo: '' @ [CHR 0x27] @ ''vpn.pdf'' @ [CHR 0x27] @ '' - Erro: arquivo corrompido''] @
          St_error_nenhum_documento # replicate (Suc (length ([] :: string option list))) St_warning_nao_pronto,
        Some None, None)"
    by blast
  then have c': "session (mundo\<lparr>lazy_load := Yield loader_pdf Stop\<rparr>) None None [Some ''oi'']
     = ([St_warning_arquivos,
         St_write (''Arquivo: '' @ [CHR 0x27] @ ''vpn.pdf'' @ [CHR 0x27] @
                   '' - Erro: arquivo corrompido''),
         St_error_nenhum_documento, St_warning_nao_pronto], Some None, None)"
    by (simp add: avisos_def)
  from a b c a' b' c' show ?thesis by simp
qed

section \<open>The transcript of the chat front-end\<close>

lemma responder_cases:
  "responder qa p
     = (case qa p of
          Inl e \<Rightarrow> ''Desculpe, ocorreu um erro ao processar sua pergunta: '' @ str_exn e
        | Inr resultado \<Rightarrow>
            (case resultado ''result'' of
               None \<Rightarrow> ''Desculpe, ocorreu um erro ao processar sua pergunta: '' @
                         [CHR 0x27] @ ''result'' @ [CHR 0x27]
             | Some r \<Rightarrow> r))"
  by (simp add: responder_def desculpe_def getitem_def split: sum.splits option.splits)

lemma conversa_state:
  "snd (conversa qa n state prompt)
     = Some ((case state of None \<Rightarrow> [saudacao] | Some ms \<Rightarrow> ms) @
             (case prompt of
                None \<Rightarrow> []
              | Some p \<Rightarrow>
                  if p = [] then []
                  else [\<lparr>role = ''user'', content = p\<rparr>,
                        \<lparr>role = ''assistant'', content = responder qa p\<rparr>]))"
  by (simp add: conversa_def Let_def split: option.splits)

lemma app_ready:
  assumes "carregar_recursos w = (evs, Inr (Some (qa, n)))"
    and "cache = None \<or> cache = Some (Some (qa, n))"
  shows "snd (app w cache state prompt) = (Some (Some (qa, n)), snd (conversa qa n state prompt))"
  using assms by (auto simp: app_def cache_resource_def split: prod.splits)

lemma session_ready_state:
  assumes "carregar_recursos w = (evs, Inr (Some (qa, n)))"
    and "cache = None \<or> cache = Some (Some (qa, n))"
  shows "snd (snd (session w cache state prompts))
     = (if prompts = [] then state
        else Some ((case state of None \<Rightarrow> [saudacao] | Some ms \<Rightarrow> ms) @
               concat (map (\<lambda>prompt. case prompt of
                               None \<Rightarrow> []
                             | Some p \<Rightarrow>
                                 if p = [] then []
                                 else [\<lparr>role = ''user'', content = p\<rparr>,
                                       \<lparr>role = ''assistant'', content = responder qa p\<rparr>]) prompts)))"
  using assms(2)
proof (induction prompts arbitrary: cache state)
  case Nil
  then show ?case by simp
next
  case (Cons prompt prompts)
  obtain out cache' state' where a: "app w cache state prompt = (out, cache', state')"
    by (cases "app w cache state prompt") auto
  with app_ready [OF assms(1) Cons.prems, of state prompt]
  have c: "cache' = Some (Some (qa, n))" and s: "state' = snd (conversa qa n state prompt)"
    by simp_all
  from c have "cache' = None \<or> cache' = Some (Some (qa, n))" by simp
  note ih = Cons.IH [OF this, of state']
  have "snd (snd (session w cache state (prompt # prompts))) = snd (snd (session w cache' state' prompts))"
    using a by (simp split: prod.splits)
  with ih s show ?case by (simp add: conversa_state)
qed

text \<open>
  C9: once setup has built the chain, the transcript after any number of runs of the
  script is the fixed greeting, a turn of role \<open>assistant\<close>, followed, for each run that
  got a non-empty message from the user, by that message as a turn of role \<open>user\<close> and
  then exactly one turn of role \<open>assistant\<close>. The text of that turn is the value under
  \<open>result\<close> of what the chain returned; when the chain raises it is the apology
  followed by the description of the error, and when the returned dictionary has no
  \<open>result\<close> it is the apology followed by the description of the \<open>KeyError\<close>. Later
  runs only append to the transcript.
\<close>

theorem transcript_greeting_then_pairs:
  assumes "carregar_recursos w = (evs, Inr (Some (qa, n)))"
  shows "snd (snd (session w None None (prompt # prompts)))
     = Some (\<lparr>role = ''assistant'',
              content = ''Ol'' @ [CHR 0xE1] @ ''! Como posso te ajudar hoje?''\<rparr> #
         concat (map (\<lambda>prompt. case prompt of
                        None \<Rightarrow> []
                      | Some p \<Rightarrow>
                          if p = [] then []
                          else [\<lparr>role = ''user'', content = p\<rparr>,
                                \<lparr>role = ''assistant'',
                                 content =
                                   (case qa p of
                                      Inl e \<Rightarrow>
                                        ''Desculpe, ocorreu um erro ao processar sua pergunta: '' @
                                        str_exn e
                                    | Inr resultado \<Rightarrow>
                                        (case resultado ''result'' of
                                           None \<Rightarrow>
                                             ''Desculpe, ocorreu um erro ao processar sua pergunta: '' @
                                             [CHR 0x27] @ ''result'' @ [CHR 0x27]
                                         | Some r \<Rightarrow> r))\<rparr>])
                   (prompt # prompts))) \<and>
    (\<exists>ms ms'. snd (snd (session w None None (prompt # prompts))) = Some ms \<and>
           snd (snd (session w None None ((prompt # prompts) @ later))) = Some ms' \<and> prefix ms ms')"
proof -
  have init: "(None :: (qa_chain \<times> nat) option option) = None \<or> None = Some (Some (qa, n))" by simp
  note st = session_ready_state [OF assms init, of None]
  have st1: "snd (snd (session w None None (prompt # prompts)))
     = Some (saudacao #
         concat (map (\<lambda>prompt. case prompt of
                        None \<Rightarrow> []
                      | Some p \<Rightarrow>
                          if p = [] then []
                          else [\<lparr>role = ''user'', content = p\<rparr>,
                                \<lparr>role = ''assistant'', content = responder qa p\<rparr>])
                   (prompt # prompts)))"
    using st [of "prompt # prompts"] by simp
  have a: "snd (snd (session w None None (prompt # prompts)))
     = Some (\<lparr>role = ''assistant'',
              content = ''Ol'' @ [CHR 0xE1] @ ''! Como posso te ajudar hoje?''\<rparr> #
         concat (map (\<lambda>prompt. case prompt of
                        None \<Rightarrow> []
                      | Some p \<Rightarrow>
                          if p = [] then []
                          else [\<lparr>role = ''user'', content = p\<rparr>,
                                \<lparr>role = ''assistant'',
                                 content =
                                   (case qa p of
                                      Inl e \<Rightarrow>
                                        ''Desculpe, ocorreu um erro ao processar sua pergunta: '' @
                                        str_exn e
                                    | Inr resultado \<Rightarrow>
                                        (case resultado ''result'' of
                                           None \<Rightarrow>
                                             ''Desculpe, ocorreu um erro ao processar sua pergunta: '' @
                                             [CHR 0x27] @ ''result'' @ [CHR 0x27]
                                         | Some r \<Rightarrow> r))\<rparr>])
                   (prompt # prompts)))"
    unfolding st1 by (simp only: saudacao_def responder_cases)
  have b: "\<exists>ms ms'. snd (snd (session w None None (prompt # prompts))) = Some ms \<and>
           snd (snd (session w None None ((prompt # prompts) @ later))) = Some ms' \<and> prefix ms ms'"
    using st [of "prompt # prompts"] st [of "(prompt # prompts) @ later"] by simp
  from a b show ?thesis by blast
qed

theorem transcript_greeting_then_pairs_witness:
  "carregar_recursos (mundo\<lparr>from_chain_type := (\<lambda>vector_store. qa_misto)\<rparr>)
     = ([St_warning_arquivos,
         St_write (''Arquivo: '' @ [CHR 0x27] @ ''vpn.pdf'' @ [CHR 0x27] @ '' - Erro: arquivo corrompido''),
         Index_build 1], Inr (Some (qa_misto, 1))) \<and>
   snd (snd (session (mundo\<lparr>from_chain_type := (\<lambda>vector_store. qa_misto)\<rparr>) None None
               [None, Some ''oi'', Some ''vpn'', Some [], Some ''senha'']))
     = Some [\<lparr>role = ''assistant'',
              content = ''Ol'' @ [CHR 0xE1] @ ''! Como posso te ajudar hoje?''\<rparr>,
             \<lparr>role = ''user'', content = ''oi''\<rparr>,
             \<lparr>role = ''assistant'', content = ''ok''\<rparr>,
             \<lparr>role = ''user'', content = ''vpn''\<rparr>,
             \<lparr>role = ''assistant'',
              content = ''Desculpe, ocorreu um erro ao processar sua pergunta: 503 Service Unavailable''\<rparr>,
             \<lparr>role = ''user'', content = ''senha''\<rparr>,
             \<lparr>role = ''assistant'',
              content = ''Desculpe, ocorreu um erro ao processar sua pergunta: '' @
                        [CHR 0x27] @ ''result'' @ [CHR 0x27]\<rparr>]"
proof -
  have l: "load_loop loaders_txt_pdf ([], [])
     = Inr ([Document ''Para redefinir a senha, abra o portal.'' ''base_de_conhecimento/senha.txt''],
            [''Arquivo: '' @ [CHR 0x27] @ ''vpn.pdf'' @ [CHR 0x27] @ '' - Erro: arquivo corrompido''])"
    by code_simp
  have a: "carregar_recursos (mundo\<lparr>from_chain_type := (\<lambda>vector_store. qa_misto)\<rparr>)
     = ([St_warning_arquivos,
         St_write (''Arquivo: '' @ [CHR 0x27] @ ''vpn.pdf'' @ [CHR 0x27] @ '' - Erro: arquivo corrompido''),
         Index_build 1], Inr (Some (qa_misto, 1)))"
    by (simp add: carregar_recursos_def mundo_def avisos_def l)
  from transcript_greeting_then_pairs
    [OF a, of None "[Some ''oi'', Some ''vpn'', Some [], Some ''senha'']" "[]"]
  have "snd (snd (session (mundo\<lparr>from_chain_type := (\<lambda>vector_store. qa_misto)\<rparr>) None None
               [None, Some ''oi'', Some ''vpn'', Some [], Some ''senha'']))
     = Some [\<lparr>role = ''assistant'',
              content = ''Ol'' @ [CHR 0xE1] @ ''! Como posso te ajudar hoje?''\<rparr>,
             \<lparr>role = ''user'', content = ''oi''\<rparr>,
             \<lparr>role = ''assistant'', content = ''ok''\<rparr>,
             \<lparr>role = ''user'', content = ''vpn''\<rparr>,
             \<lparr>role = ''assistant'',
              content = ''Desculpe, ocorreu um erro ao processar sua pergunta: 503 Service Unavailable''\<rparr>,
             \<lparr>role = ''user'', content = ''senha''\<rparr>,
             \<lparr>role = ''assistant'',
              content = ''Desculpe, ocorreu um erro ao processar sua pergunta: '' @
                        [CHR 0x27] @ ''result'' @ [CHR 0x27]\<rparr>]"
    by (simp add: qa_misto_def)
  with a show ?thesis by simp
qed

end
